theory Spec2Isabelle
  imports Complex_Main "HOL-Library.Multiset"
begin

section \<open>Hybrid search of rag_search_txt.py\<close>

text \<open>
  The development embeds \<^verbatim>\<open>src/rag_search_txt.py\<close>: the tokenizer
  \<^verbatim>\<open>simple_tokenize\<close>, the wrapper \<^verbatim>\<open>get_query_embedding\<close>, the ranking function
  \<^verbatim>\<open>hybrid_search\<close> and its caller \<^verbatim>\<open>run_rag\<close>.

  Conventions of the embedding.
  \<^item> Python floats and numpy floats are idealised as \<open>real\<close>: rounding, infinities and
    NaN are outside the model.
  \<^item> A \<^verbatim>\<open>str\<close> is a \<open>string\<close> of ASCII characters; \<^verbatim>\<open>str.lower\<close> and
    \<^verbatim>\<open>str.split\<close> are modelled on that alphabet.
  \<^item> An exception that leaves \<^verbatim>\<open>hybrid_search\<close> is a value \<open>Inl e\<close>; the lines written
    by \<^verbatim>\<open>print\<close> are collected in a list next to the returned value.
  \<^item> The collaborators that are not part of the repository are parameters: the embedding
    provider \<^verbatim>\<open>genai.embed_content\<close>, the scorer \<^verbatim>\<open>BM25Okapi(...).get_scores\<close>, the
    Chroma collection and the generative model. The provider and the generative model may
    raise; the scorer and the collection are taken to answer.
\<close>

subsection \<open>Errors and printed lines\<close>

datatype py_error = IndexError | ValueError | ZeroDivisionError

datatype out_line =
    SearchStart \<comment> \<open>the banner printed on entry of \<^verbatim>\<open>hybrid_search\<close>\<close>
  | DbEmpty \<comment> \<open>the line printed when the collection holds no document\<close>
  | EmbeddingError string \<comment> \<open>the line printed by \<^verbatim>\<open>get_query_embedding\<close> with the exception text\<close>

subsection \<open>Strings\<close>

text \<open>\<^verbatim>\<open>str.isspace\<close> on one ASCII character: space, the controls 0x09 to 0x0D and 0x1C to 0x1F.\<close>

definition isspace :: "char \<Rightarrow> bool" where
  "isspace c = (List.member
     [CHR 0x20, CHR 0x09, CHR 0x0A, CHR 0x0B, CHR 0x0C, CHR 0x0D,
      CHR 0x1C, CHR 0x1D, CHR 0x1E, CHR 0x1F] c)"

text \<open>\<^verbatim>\<open>str.split()\<close> without argument: the maximal runs of non-space characters, in order.
  The first argument is the word being read.\<close>

fun split_from :: "string \<Rightarrow> string \<Rightarrow> string list" where
  "split_from w [] = (if w = [] then [] else [w])"
| "split_from w (c # cs) =
     (if isspace c then (if w = [] then split_from [] cs else w # split_from [] cs)
      else split_from (w @ [c]) cs)"

definition str_split :: "string \<Rightarrow> string list" where
  "str_split s = split_from [] s"

text \<open>\<^verbatim>\<open>str.lower()\<close> on ASCII: the letters A to Z are mapped to a to z.\<close>

definition lower_char :: "char \<Rightarrow> char" where
  "lower_char c =
     (case map_of (zip ''ABCDEFGHIJKLMNOPQRSTUVWXYZ'' ''abcdefghijklmnopqrstuvwxyz'') c of
        None \<Rightarrow> c
      | Some d \<Rightarrow> d)"

definition str_lower :: "string \<Rightarrow> string" where
  "str_lower s = map lower_char s"

text \<open>\<^verbatim>\<open>sub in s\<close> for two strings: \<open>sub\<close> occurs in \<open>s\<close> as a contiguous block.\<close>

fun startswith :: "string \<Rightarrow> string \<Rightarrow> bool" where
  "startswith s [] = True"
| "startswith [] (p # ps) = False"
| "startswith (c # cs) (p # ps) = (c = p \<and> startswith cs ps)"

fun str_contains :: "string \<Rightarrow> string \<Rightarrow> bool" where
  "str_contains sub [] = (sub = [])"
| "str_contains sub (c # cs) = (startswith (c # cs) sub \<or> str_contains sub cs)"

text \<open>\<^verbatim>\<open>def simple_tokenize(text): return text.lower().split()\<close>\<close>

definition simple_tokenize :: "string \<Rightarrow> string list" where
  "simple_tokenize text = str_split (str_lower text)"

subsection \<open>The collaborators\<close>

text \<open>\<^verbatim>\<open>collection.get()\<close> yields the parallel lists \<^verbatim>\<open>'documents'\<close> and \<^verbatim>\<open>'ids'\<close>;
  \<^verbatim>\<open>collection.query(query_embeddings=[e], n_results=n)\<close> yields, for the single query,
  the lists \<^verbatim>\<open>['ids'][0]\<close> and \<^verbatim>\<open>['distances'][0]\<close>.\<close>

record get_result =
  documents :: "string list"
  ids :: "string list"

record query_result =
  result_ids :: "string list"
  result_distances :: "real list"

record collection =
  coll_get :: get_result
  coll_query :: "real list \<Rightarrow> nat \<Rightarrow> query_result"

text \<open>The embedding provider either raises (\<open>Inl\<close> the exception text) or returns the
  value stored under \<^verbatim>\<open>"embedding"\<close>. The BM25 scorer maps the tokenized corpus and the
  tokenized query to one raw score per document.\<close>

type_synonym embedder = "string \<Rightarrow> string + real list"
type_synonym bm25_scorer = "string list list \<Rightarrow> string list \<Rightarrow> real list"

subsection \<open>get\_query\_embedding\<close>

text \<open>The \<^verbatim>\<open>try\<close> block returns the embedding; the \<^verbatim>\<open>except\<close> block prints the error
  and returns \<^verbatim>\<open>None\<close>.\<close>

definition get_query_embedding :: "embedder \<Rightarrow> string \<Rightarrow> out_line list \<times> real list option" where
  "get_query_embedding provider query =
     (case provider query of
        Inr embedding \<Rightarrow> ([], Some embedding)
      | Inl e \<Rightarrow> ([EmbeddingError e], None))"

subsection \<open>The stages of hybrid\_search\<close>

text \<open>\<^verbatim>\<open>np.max\<close> and the builtin \<^verbatim>\<open>max\<close> of a sequence; both raise \<^verbatim>\<open>ValueError\<close> on an
  empty one.\<close>

fun seq_max :: "real list \<Rightarrow> py_error + real" where
  "seq_max [] = Inl ValueError"
| "seq_max (x # xs) = Inr (fold max xs x)"

text \<open>Lines 72 to 74:
  \<^verbatim>\<open>if np.max(bm25_scores) > 0: bm25_scores = bm25_scores / np.max(bm25_scores)\<close>\<close>

definition normalize_sparse :: "real list \<Rightarrow> py_error + real list" where
  "normalize_sparse bm25_scores =
     (case seq_max bm25_scores of
        Inl e \<Rightarrow> Inl e
      | Inr m \<Rightarrow> if m > 0 then Inr (map (\<lambda>x. x / m) bm25_scores) else Inr bm25_scores)"

text \<open>Lines 98 to 103: the dictionary from document id to dense score. A later pair
  overwrites an earlier one with the same id; a float division by zero raises.\<close>

fun vector_scores ::
  "real \<Rightarrow> (string \<times> real) list \<Rightarrow> (string \<rightharpoonup> real) \<Rightarrow> py_error + (string \<rightharpoonup> real)" where
  "vector_scores max_dist [] vector_score_map = Inr vector_score_map"
| "vector_scores max_dist ((doc_id, d) # rest) vector_score_map =
     (if max_dist + 0.0001 = 0 then Inl ZeroDivisionError
      else vector_scores max_dist rest
             (vector_score_map(doc_id \<mapsto> 1 - (d / (max_dist + 0.0001)))))"

text \<open>Line 99: \<^verbatim>\<open>max_dist = max(distances) if distances else 1\<close>\<close>

fun max_distance :: "real list \<Rightarrow> real" where
  "max_distance [] = 1"
| "max_distance (d # ds) = fold max ds d"

definition vector_score_map :: "string list \<Rightarrow> real list \<Rightarrow> py_error + (string \<rightharpoonup> real)" where
  "vector_score_map vector_ids distances =
     vector_scores (max_distance distances) (zip vector_ids distances) Map.empty"

text \<open>\<^verbatim>\<open>vector_score_map.get(doc_id, 0)\<close>: the lookup with a default.\<close>

definition map_get :: "('k \<rightharpoonup> real) \<Rightarrow> 'k \<Rightarrow> real \<Rightarrow> real" where
  "map_get m key dflt = (case m key of None \<Rightarrow> dflt | Some v \<Rightarrow> v)"

text \<open>Lines 112 and 119: the weight and the weighted sum.\<close>

definition alpha :: real where
  "alpha = 0.6"

definition weighted_sum :: "real \<Rightarrow> real \<Rightarrow> real" where
  "weighted_sum k_score v_score = (k_score * alpha) + (v_score * (1 - alpha))"

text \<open>Line 122: \<^verbatim>\<open>query.split()[0] in all_docs[i]\<close>, for the document text already read.
  Indexing the empty list raises \<^verbatim>\<open>IndexError\<close>.\<close>

definition boost_applies :: "string \<Rightarrow> string \<Rightarrow> py_error + bool" where
  "boost_applies query doc =
     (case str_split query of
        [] \<Rightarrow> Inl IndexError
      | w # ws \<Rightarrow> Inr (str_contains w doc))"

text \<open>Lines 119 to 123: the score of one document from its two input scores.\<close>

definition total_score :: "string \<Rightarrow> string \<Rightarrow> real \<Rightarrow> real \<Rightarrow> py_error + real" where
  "total_score query doc k_score v_score =
     (case boost_applies query doc of
        Inl e \<Rightarrow> Inl e
      | Inr b \<Rightarrow>
          if b then Inr (weighted_sum k_score v_score + 0.1)
          else Inr (weighted_sum k_score v_score))"

text \<open>Lines 114 to 125: the loop over \<^verbatim>\<open>enumerate(all_ids)\<close>, from index \<open>i\<close> on. The reads
  \<^verbatim>\<open>bm25_scores[i]\<close> and \<^verbatim>\<open>all_docs[i]\<close> raise \<^verbatim>\<open>IndexError\<close> out of range;
  \<^verbatim>\<open>query.split()[0]\<close> is evaluated before \<^verbatim>\<open>all_docs[i]\<close>.\<close>

fun score_loop ::
  "string \<Rightarrow> string list \<Rightarrow> real list \<Rightarrow> (string \<rightharpoonup> real) \<Rightarrow> nat \<Rightarrow> string list
     \<Rightarrow> py_error + (real \<times> string) list" where
  "score_loop query all_docs bm25_scores vmap i [] = Inr []"
| "score_loop query all_docs bm25_scores vmap i (doc_id # rest) =
     (let v_score = map_get vmap doc_id 0 in
      if i \<ge> length bm25_scores then Inl IndexError
      else if str_split query = [] then Inl IndexError
      else if i \<ge> length all_docs then Inl IndexError
      else
        (case total_score query (all_docs ! i) (bm25_scores ! i) v_score of
           Inl e \<Rightarrow> Inl e
         | Inr s \<Rightarrow>
             (case score_loop query all_docs bm25_scores vmap (Suc i) rest of
                Inl e \<Rightarrow> Inl e
              | Inr final_scores \<Rightarrow> Inr ((s, all_docs ! i) # final_scores))))"

text \<open>Line 128: \<^verbatim>\<open>final_scores.sort(key=lambda x: x[0], reverse=True)\<close>, the stable sort
  by descending score. Line 131: the slice \<^verbatim>\<open>final_scores[:k]\<close>, which for a negative
  \<open>k\<close> drops the last \<open>-k\<close> entries.\<close>

definition sort_reverse :: "(real \<times> string) list \<Rightarrow> (real \<times> string) list" where
  "sort_reverse final_scores = sort_key (\<lambda>x. - fst x) final_scores"

definition slice_to :: "int \<Rightarrow> 'a list \<Rightarrow> 'a list" where
  "slice_to k xs = (if k \<ge> 0 then take (nat k) xs else take (length xs - nat (- k)) xs)"

subsection \<open>hybrid\_search\<close>

definition hybrid_search ::
  "embedder \<Rightarrow> bm25_scorer \<Rightarrow> string \<Rightarrow> collection \<Rightarrow> int
     \<Rightarrow> out_line list \<times> (py_error + string list)" where
  "hybrid_search provider bm25 query coll k =
     (let all_docs = documents (coll_get coll);
          all_ids = ids (coll_get coll)
      in
      if all_docs = [] then ([SearchStart, DbEmpty], Inr [])
      else
        let tokenized_corpus = map simple_tokenize all_docs;
            tokenized_query = simple_tokenize query
        in
        (case normalize_sparse (bm25 tokenized_corpus tokenized_query) of
           Inl e \<Rightarrow> ([SearchStart], Inl e)
         | Inr bm25_scores \<Rightarrow>
            (case get_query_embedding provider query of
               (out, None) \<Rightarrow> (SearchStart # out, Inr [])
             | (out, Some query_embedding) \<Rightarrow>
                if query_embedding = [] then (SearchStart # out, Inr [])
                else
                  let vector_results = coll_query coll query_embedding (length all_docs) in
                  (case vector_score_map (result_ids vector_results)
                          (result_distances vector_results) of
                     Inl e \<Rightarrow> (SearchStart # out, Inl e)
                   | Inr vmap \<Rightarrow>
                      (case score_loop query all_docs bm25_scores vmap 0 all_ids of
                         Inl e \<Rightarrow> (SearchStart # out, Inl e)
                       | Inr final_scores \<Rightarrow>
                           (SearchStart # out,
                            Inr (map snd (slice_to k (sort_reverse final_scores)))))))))"

subsection \<open>run\_rag\<close>

text \<open>The three texts that \<^verbatim>\<open>run_rag\<close> can return without an answer of the model are
  constructors: the database directory is missing, no document was found
  (\<^verbatim>\<open>if not top_docs\<close>), the generative call raised. The prompt is a fixed template
  around the context \<^verbatim>\<open>"\n\n".join(top_docs)\<close> and the query, so the generative model is
  a function of these two.\<close>

datatype reply = DbMissing | DocsNotFound | Answer string | GeminiError string

fun join_docs :: "string list \<Rightarrow> string" where
  "join_docs [] = []"
| "join_docs [d] = d"
| "join_docs (d # e # ds) = d @ [CHR 0x0A, CHR 0x0A] @ join_docs (e # ds)"

definition run_rag ::
  "bool \<Rightarrow> embedder \<Rightarrow> bm25_scorer \<Rightarrow> (string \<Rightarrow> string \<Rightarrow> string + string) \<Rightarrow> collection
     \<Rightarrow> string \<Rightarrow> out_line list \<times> (py_error + reply)" where
  "run_rag db_exists provider bm25 generate coll query =
     (if \<not> db_exists then ([], Inr DbMissing)
      else
        (case hybrid_search provider bm25 query coll 7 of
           (out, Inl e) \<Rightarrow> (out, Inl e)
         | (out, Inr top_docs) \<Rightarrow>
             if top_docs = [] then (out, Inr DocsNotFound)
             else
               (case generate (join_docs top_docs) query of
                  Inr answer \<Rightarrow> (out, Inr (Answer answer))
                | Inl e \<Rightarrow> (out, Inr (GeminiError e)))))"

subsection \<open>An example run\<close>

text \<open>The scenario of the specification with ASCII texts: three documents at equal
  distance from the query, a provider that answers, one that raises, and a scorer that
  counts the query tokens occurring in a document.\<close>

definition example_docs :: "string list" where
  "example_docs =
     [''statistics intro oh professor'', ''english speaking kim professor'', ''stat lab oh'']"

definition example_doc_ids :: "string list" where
  "example_doc_ids = [''d1'', ''d2'', ''d3'']"

definition example_results :: query_result where
  "example_results = \<lparr> result_ids = [''d1'', ''d2'', ''d3''], result_distances = [1, 1, 1] \<rparr>"

definition example_query :: string where
  "example_query = ''oh statistics''"

definition example_collection :: collection where
  "example_collection =
     \<lparr> coll_get = \<lparr> documents = example_docs, ids = example_doc_ids \<rparr>,
       coll_query = (\<lambda>query_embedding n_results. example_results) \<rparr>"

definition empty_collection :: collection where
  "empty_collection =
     \<lparr> coll_get = \<lparr> documents = [], ids = [] \<rparr>,
       coll_query = (\<lambda>query_embedding n_results. \<lparr> result_ids = [], result_distances = [] \<rparr>) \<rparr>"

definition example_provider :: embedder where
  "example_provider query = Inr [1, 0]"

definition failing_provider :: embedder where
  "failing_provider query = Inl ''unavailable''"

definition overlap_scorer :: bm25_scorer where
  "overlap_scorer tokenized_corpus tokenized_query =
     map (\<lambda>doc. real (length (filter (List.member doc) tokenized_query))) tokenized_corpus"

definition echo_model :: "string \<Rightarrow> string \<Rightarrow> string + string" where
  "echo_model context_text query = Inr context_text"

section \<open>Properties\<close>

subsection \<open>Auxiliary facts about the stages\<close>

lemma seq_max_Max: "xs \<noteq> [] \<Longrightarrow> seq_max xs = Inr (Max (set xs))"
  by (cases xs) (simp_all add: Max.set_eq_fold [symmetric])

lemma normalize_sparse_length: "normalize_sparse xs = Inr ys \<Longrightarrow> length ys = length xs"
  by (auto simp: normalize_sparse_def split: sum.splits if_splits)

lemma normalize_sparse_total: "xs \<noteq> [] \<Longrightarrow> \<exists>ys. normalize_sparse xs = Inr ys"
  by (cases xs) (simp_all add: normalize_sparse_def)

lemma vector_scores_total:
  "max_dist + 0.0001 \<noteq> 0 \<Longrightarrow> \<exists>m'. vector_scores max_dist ps m = Inr m'"
  by (induction ps arbitrary: m) auto

lemma vector_scores_lookup:
  "vector_scores max_dist ps m = Inr m' \<Longrightarrow>
   m' key = (case map_of (rev ps) key of None \<Rightarrow> m key
             | Some d \<Rightarrow> Some (1 - d / (max_dist + 0.0001)))"
proof (induction ps arbitrary: m)
  case Nil
  then show ?case by simp
next
  case (Cons p ps)
  obtain doc_id d where p: "p = (doc_id, d)" by (cases p)
  from Cons.prems p have nz: "max_dist + 0.0001 \<noteq> 0"
    by (auto split: if_splits)
  with Cons.prems p
  have "vector_scores max_dist ps (m(doc_id \<mapsto> 1 - d / (max_dist + 0.0001))) = Inr m'"
    by simp
  from Cons.IH [OF this] show ?case
    by (auto simp: p map_of_append map_add_def split: option.splits)
qed

lemma max_distance_Max: "distances \<noteq> [] \<Longrightarrow> max_distance distances = Max (set distances)"
  by (cases distances) (simp_all add: Max.set_eq_fold [symmetric])

lemma max_distance_nonneg:
  assumes "\<forall>d\<in>set distances. 0 \<le> d"
  shows "0 \<le> max_distance distances"
proof (cases "distances = []")
  case True
  then show ?thesis by simp
next
  case False
  then have "Max (set distances) \<in> set distances" by (intro Max_in) simp_all
  with assms False show ?thesis by (simp add: max_distance_Max)
qed

lemma vector_score_map_total:
  assumes "\<forall>d\<in>set distances. 0 \<le> d"
  shows "\<exists>dense. vector_score_map vector_ids distances = Inr dense"
proof -
  from max_distance_nonneg [OF assms] have "max_distance distances + 0.0001 \<noteq> 0" by simp
  then show ?thesis unfolding vector_score_map_def by (rule vector_scores_total)
qed

text \<open>With a first query token and enough scores and documents the loop does not raise,
  and its result is known entry by entry.\<close>

lemma score_loop_nominal:
  "str_split query = w # ws \<Longrightarrow> i + length rest \<le> length bm25_scores \<Longrightarrow>
   i + length rest \<le> length all_docs \<Longrightarrow>
   score_loop query all_docs bm25_scores vmap i rest =
     Inr (map (\<lambda>(j, doc_id).
            (weighted_sum (bm25_scores ! j) (map_get vmap doc_id 0)
               + (if str_contains w (all_docs ! j) then 0.1 else 0), all_docs ! j))
          (enumerate i rest))"
proof (induction rest arbitrary: i)
  case Nil
  then show ?case by simp
next
  case (Cons doc_id rest)
  from Cons.prems have "score_loop query all_docs bm25_scores vmap (Suc i) rest =
     Inr (map (\<lambda>(j, doc_id).
            (weighted_sum (bm25_scores ! j) (map_get vmap doc_id 0)
               + (if str_contains w (all_docs ! j) then 0.1 else 0), all_docs ! j))
          (enumerate (Suc i) rest))"
    by (intro Cons.IH) simp_all
  with Cons.prems show ?case
    by (simp add: total_score_def boost_applies_def)
qed

text \<open>The sort is descending, a permutation, and stable.\<close>

lemma sort_reverse_descending: "sorted_wrt (\<lambda>a b. fst a \<ge> fst b) (sort_reverse xs)"
proof -
  have "sorted (map (\<lambda>x. - fst x) (sort_key (\<lambda>x. - fst x) xs))"
    by (rule sorted_sort_key)
  then show ?thesis
    by (simp add: sort_reverse_def sorted_map)
qed

lemma mset_sort_reverse: "mset (sort_reverse xs) = mset xs"
  by (simp add: sort_reverse_def)

lemma sort_reverse_stable:
  "filter (\<lambda>x. fst x = s) (sort_reverse xs) = filter (\<lambda>x. fst x = s) xs"
proof -
  have "filter (\<lambda>y. - fst y = - s) (sort_key (\<lambda>x. - fst x) xs) =
        filter (\<lambda>y. - fst y = - s) xs"
    by (rule sort_key_stable)
  then show ?thesis by (simp add: sort_reverse_def)
qed

text \<open>The run of \<open>hybrid_search\<close> when every collaborator answers: a non-empty corpus
  with one id per document, one raw score per document, a non-empty embedding,
  non-negative distances and a query with a first token.\<close>

lemma hybrid_search_stages:
  assumes docs: "documents (coll_get coll) = all_docs" "all_docs \<noteq> []"
    and idl: "ids (coll_get coll) = all_ids" "length all_ids = length all_docs"
    and bm: "length (bm25 (map simple_tokenize all_docs) (simple_tokenize query)) = length all_docs"
    and emb: "provider query = Inr e" "e \<noteq> []"
    and res: "coll_query coll e (length all_docs) = vector_results"
      "\<forall>d\<in>set (result_distances vector_results). 0 \<le> d"
    and q: "str_split query = w # ws"
  shows "\<exists>sparse_norm dense final_scores.
    normalize_sparse (bm25 (map simple_tokenize all_docs) (simple_tokenize query)) = Inr sparse_norm \<and>
    vector_score_map (result_ids vector_results) (result_distances vector_results) = Inr dense \<and>
    score_loop query all_docs sparse_norm dense 0 all_ids = Inr final_scores \<and>
    hybrid_search provider bm25 query coll k =
      ([SearchStart], Inr (map snd (slice_to k (sort_reverse final_scores)))) \<and>
    length final_scores = length all_docs \<and>
    (\<forall>i<length all_docs.
       final_scores ! i =
         (weighted_sum (sparse_norm ! i) (map_get dense (all_ids ! i) 0)
            + (if str_contains w (all_docs ! i) then 0.1 else 0), all_docs ! i))"
proof -
  let ?raw = "bm25 (map simple_tokenize all_docs) (simple_tokenize query)"
  from bm docs(2) have "?raw \<noteq> []" by auto
  then obtain sparse_norm where sn: "normalize_sparse ?raw = Inr sparse_norm"
    using normalize_sparse_total by blast
  then have len_sn: "length sparse_norm = length all_docs"
    using normalize_sparse_length bm by fastforce
  obtain dense where dn:
    "vector_score_map (result_ids vector_results) (result_distances vector_results) = Inr dense"
    using vector_score_map_total [OF res(2)] by blast
  define final_scores where "final_scores =
    map (\<lambda>(j, doc_id).
          (weighted_sum (sparse_norm ! j) (map_get dense doc_id 0)
             + (if str_contains w (all_docs ! j) then 0.1 else 0), all_docs ! j))
        (enumerate 0 all_ids)"
  have loop: "score_loop query all_docs sparse_norm dense 0 all_ids = Inr final_scores"
    unfolding final_scores_def using q idl(2) len_sn by (intro score_loop_nominal) simp_all
  have hs: "hybrid_search provider bm25 query coll k =
      ([SearchStart], Inr (map snd (slice_to k (sort_reverse final_scores))))"
    using docs idl(1) sn emb res(1) dn loop
    by (simp add: hybrid_search_def get_query_embedding_def)
  have len: "length final_scores = length all_docs"
    by (simp add: final_scores_def idl(2))
  have nth: "\<forall>i<length all_docs.
       final_scores ! i =
         (weighted_sum (sparse_norm ! i) (map_get dense (all_ids ! i) 0)
            + (if str_contains w (all_docs ! i) then 0.1 else 0), all_docs ! i)"
    unfolding final_scores_def using idl(2) by (simp add: nth_enumerate_eq)
  from sn dn loop hs len nth show ?thesis by blast
qed

text \<open>The example satisfies these conditions.\<close>

lemma example_documents: "documents (coll_get example_collection) = example_docs"
  by (simp add: example_collection_def)

lemma example_docs_nonempty: "example_docs \<noteq> []"
  by (simp add: example_docs_def)

lemma example_ids: "ids (coll_get example_collection) = example_doc_ids"
  by (simp add: example_collection_def)

lemma example_lengths: "length example_doc_ids = length example_docs"
  by (simp add: example_doc_ids_def example_docs_def)

lemma example_scorer_length:
  "length (overlap_scorer (map simple_tokenize example_docs) (simple_tokenize example_query)) =
   length example_docs"
  by (simp add: overlap_scorer_def)

lemma example_embedding: "example_provider example_query = Inr [1, 0]"
  by (simp add: example_provider_def)

lemma example_embedding_nonempty: "[1, 0 :: real] \<noteq> []"
  by simp

lemma example_query_result:
  "coll_query example_collection [1, 0] (length example_docs) = example_results"
  by (simp add: example_collection_def)

lemma example_distances: "\<forall>d\<in>set (result_distances example_results). 0 \<le> d"
  by (simp add: example_results_def)

lemma example_split: "str_split example_query = ''oh'' # [''statistics'']"
  by (simp add: example_query_def str_split_def isspace_def)

lemma example_raw_scores:
  "overlap_scorer (map simple_tokenize example_docs) (simple_tokenize example_query) = [2, 0, 1]"
  by (simp add: overlap_scorer_def simple_tokenize_def str_lower_def lower_char_def
      str_split_def isspace_def example_docs_def example_query_def)

lemma slice_to_map: "map f (slice_to k xs) = slice_to k (map f xs)"
  by (simp add: slice_to_def take_map)

lemma example_run:
  "hybrid_search example_provider overlap_scorer example_query example_collection k =
     ([SearchStart],
      Inr (slice_to k
        [''statistics intro oh professor'', ''stat lab oh'', ''english speaking kim professor'']))"
proof -
  have "hybrid_search example_provider overlap_scorer example_query example_collection k =
     ([SearchStart],
      Inr (map snd (slice_to k (sort_reverse
        [(weighted_sum 1 (1 - 1 / (1 + 0.0001)) + 0.1, ''statistics intro oh professor''),
         (weighted_sum 0 (1 - 1 / (1 + 0.0001)), ''english speaking kim professor''),
         (weighted_sum (1 / 2) (1 - 1 / (1 + 0.0001)) + 0.1, ''stat lab oh'')]))))"
    by (simp add: hybrid_search_def example_documents example_ids example_raw_scores
        normalize_sparse_def get_query_embedding_def example_embedding example_collection_def
        example_results_def vector_score_map_def map_get_def
        total_score_def boost_applies_def example_split, simp add: example_docs_def example_doc_ids_def
        total_score_def boost_applies_def example_split map_get_def)
  then show ?thesis
    by (simp add: weighted_sum_def alpha_def sort_reverse_def slice_to_map)
qed

text \<open>The example with a query of two spaces, and with the provider that raises.\<close>

lemma example_blank_split: "str_split ''  '' = []"
  by (simp add: str_split_def isspace_def)

lemma example_blank_raw_scores:
  "overlap_scorer (map simple_tokenize example_docs) (simple_tokenize ''  '') = [0, 0, 0]"
  by (simp add: overlap_scorer_def simple_tokenize_def str_lower_def lower_char_def
      str_split_def isspace_def example_docs_def)

lemma example_blank_run:
  "hybrid_search example_provider overlap_scorer ''  '' example_collection k =
     ([SearchStart], Inl IndexError)"
  by (simp add: hybrid_search_def example_documents example_ids example_blank_raw_scores
      normalize_sparse_def get_query_embedding_def example_provider_def example_collection_def
      example_results_def vector_score_map_def example_blank_split example_docs_nonempty
      example_doc_ids_def)

lemma example_failing_run:
  "hybrid_search failing_provider overlap_scorer example_query example_collection k =
     ([SearchStart, EmbeddingError ''unavailable''], Inr [])"
  by (simp add: hybrid_search_def example_documents example_raw_scores normalize_sparse_def
      get_query_embedding_def failing_provider_def example_docs_nonempty)

lemma example_failing_blank_run:
  "hybrid_search failing_provider overlap_scorer ''  '' example_collection k =
     ([SearchStart, EmbeddingError ''unavailable''], Inr [])"
  by (simp add: hybrid_search_def example_documents example_blank_raw_scores normalize_sparse_def
      get_query_embedding_def failing_provider_def example_docs_nonempty)

subsection \<open>Score fusion\<close>

text \<open>
  Claim C1. When the search reaches the scoring loop (a non-empty corpus with one id per
  document, one raw sparse score per document, a non-empty query embedding, non-negative
  distances and a query with a first token \<open>w\<close>), no stage raises, and for every document
  \<open>i\<close> of the corpus the score that enters the sort is
  \<open>alpha * sparse_norm[i] + (1 - alpha) * dense_norm[i]\<close> plus the boost term (0.1 or 0),
  where \<open>sparse_norm\<close> is the result of the sparse normalization, \<open>dense_norm\<close> is the
  dense score looked up by the document's id (0 when absent) and \<open>alpha\<close> is 0.6, a weight
  in the unit interval.
\<close>

theorem fused_score_weighted_sum:
  assumes docs: "documents (coll_get coll) = all_docs" "all_docs \<noteq> []"
    and idl: "ids (coll_get coll) = all_ids" "length all_ids = length all_docs"
    and bm: "length (bm25 (map simple_tokenize all_docs) (simple_tokenize query)) = length all_docs"
    and emb: "provider query = Inr e" "e \<noteq> []"
    and res: "coll_query coll e (length all_docs) = vector_results"
      "\<forall>d\<in>set (result_distances vector_results). 0 \<le> d"
    and q: "str_split query = w # ws"
  shows "alpha = 0.6 \<and> 0 \<le> alpha \<and> alpha \<le> 1 \<and>
    (\<exists>sparse_norm dense_norm final_scores.
      normalize_sparse (bm25 (map simple_tokenize all_docs) (simple_tokenize query)) = Inr sparse_norm \<and>
      vector_score_map (result_ids vector_results) (result_distances vector_results) = Inr dense_norm \<and>
      score_loop query all_docs sparse_norm dense_norm 0 all_ids = Inr final_scores \<and>
      snd (hybrid_search provider bm25 query coll k) =
        Inr (map snd (slice_to k (sort_reverse final_scores))) \<and>
      length final_scores = length all_docs \<and>
      (\<forall>i<length all_docs.
         fst (final_scores ! i) =
           (alpha * sparse_norm ! i + (1 - alpha) * map_get dense_norm (all_ids ! i) 0)
             + (if str_contains w (all_docs ! i) then 0.1 else 0)))"
proof -
  from hybrid_search_stages [where provider = provider and ?bm25.0 = bm25 and query = query
      and coll = coll and k = k, OF assms]
  obtain sparse_norm dense_norm final_scores where st:
    "normalize_sparse (bm25 (map simple_tokenize all_docs) (simple_tokenize query)) = Inr sparse_norm"
    "vector_score_map (result_ids vector_results) (result_distances vector_results) = Inr dense_norm"
    "score_loop query all_docs sparse_norm dense_norm 0 all_ids = Inr final_scores"
    "hybrid_search provider bm25 query coll k =
      ([SearchStart], Inr (map snd (slice_to k (sort_reverse final_scores))))"
    "length final_scores = length all_docs"
    "\<forall>i<length all_docs.
       final_scores ! i =
         (weighted_sum (sparse_norm ! i) (map_get dense_norm (all_ids ! i) 0)
            + (if str_contains w (all_docs ! i) then 0.1 else 0), all_docs ! i)"
    by blast
  have "\<forall>i<length all_docs.
         fst (final_scores ! i) =
           (alpha * sparse_norm ! i + (1 - alpha) * map_get dense_norm (all_ids ! i) 0)
             + (if str_contains w (all_docs ! i) then 0.1 else 0)"
    using st(6) by (simp add: weighted_sum_def mult.commute)
  moreover have "alpha = 0.6 \<and> 0 \<le> alpha \<and> alpha \<le> 1" by (simp add: alpha_def)
  ultimately show ?thesis using st(1-5) by auto
qed

theorem fused_score_weighted_sum_witness:
  "alpha = 0.6 \<and> 0 \<le> alpha \<and> alpha \<le> 1 \<and>
    (\<exists>sparse_norm dense_norm final_scores.
      normalize_sparse
        (overlap_scorer (map simple_tokenize example_docs) (simple_tokenize example_query)) =
        Inr sparse_norm \<and>
      vector_score_map (result_ids example_results) (result_distances example_results) =
        Inr dense_norm \<and>
      score_loop example_query example_docs sparse_norm dense_norm 0 example_doc_ids =
        Inr final_scores \<and>
      snd (hybrid_search example_provider overlap_scorer example_query example_collection 2) =
        Inr (map snd (slice_to 2 (sort_reverse final_scores))) \<and>
      length final_scores = length example_docs \<and>
      (\<forall>i<length example_docs.
         fst (final_scores ! i) =
           (alpha * sparse_norm ! i + (1 - alpha) * map_get dense_norm (example_doc_ids ! i) 0)
             + (if str_contains ''oh'' (example_docs ! i) then 0.1 else 0)))"
  by (rule fused_score_weighted_sum [where provider = example_provider and ?bm25.0 = overlap_scorer
      and query = example_query and coll = example_collection and k = 2,
      OF example_documents example_docs_nonempty example_ids example_lengths
        example_scorer_length example_embedding example_embedding_nonempty
        example_query_result example_distances example_split])

subsection \<open>Sorting and truncation\<close>

lemma map_snd_scored:
  assumes "length final_scores = length all_docs"
    and "\<forall>i<length all_docs. final_scores ! i = (f i, all_docs ! i)"
  shows "map snd final_scores = all_docs"
  using assms by (intro nth_equalityI) simp_all

text \<open>
  Claim C2, as stated: for every \<open>k\<close> that is at least the corpus size the search returns
  all documents. On the example corpus of three documents with \<open>k = 3\<close>, the search returns
  the empty list when the embedding provider raises (the return of line 80), and it raises
  \<open>IndexError\<close> for a query of two spaces: in neither run are the documents returned.
\<close>

theorem search_returns_all_counterexample:
  "documents (coll_get example_collection) = example_docs \<and>
   length example_docs = 3 \<and>
   hybrid_search failing_provider overlap_scorer example_query example_collection 3 =
     ([SearchStart, EmbeddingError ''unavailable''], Inr []) \<and>
   hybrid_search example_provider overlap_scorer ''  '' example_collection 3 =
     ([SearchStart], Inl IndexError)"
  by (simp add: example_documents example_failing_run example_blank_run,
      simp add: example_docs_def)

text \<open>
  Claim C2, amended. In a run with an available query embedding and a query that has a
  first token (a non-empty corpus with one id per document, one raw score per document,
  non-negative distances), the pairs of \<open>final_scores\<close> stand in corpus order, one per
  document; \<open>hybrid_search\<close> sorts them by descending score (\<open>sort_reverse\<close>: the sorted
  list is descending, a permutation of the pairs, and for every score the pairs with that
  score keep their corpus order), and returns the documents of the first \<open>k\<close> sorted pairs.
  For every \<open>k\<close> that is at least the corpus size the result holds all documents in sorted
  order: it is a permutation of the corpus, so no document is missing or repeated.
\<close>

theorem search_sorts_stably_and_truncates:
  assumes docs: "documents (coll_get coll) = all_docs" "all_docs \<noteq> []"
    and idl: "ids (coll_get coll) = all_ids" "length all_ids = length all_docs"
    and bm: "length (bm25 (map simple_tokenize all_docs) (simple_tokenize query)) = length all_docs"
    and emb: "provider query = Inr e" "e \<noteq> []"
    and res: "coll_query coll e (length all_docs) = vector_results"
      "\<forall>d\<in>set (result_distances vector_results). 0 \<le> d"
    and q: "str_split query = w # ws"
  shows "\<exists>sparse_norm dense_norm final_scores.
      normalize_sparse (bm25 (map simple_tokenize all_docs) (simple_tokenize query)) = Inr sparse_norm \<and>
      vector_score_map (result_ids vector_results) (result_distances vector_results) = Inr dense_norm \<and>
      score_loop query all_docs sparse_norm dense_norm 0 all_ids = Inr final_scores \<and>
      map snd final_scores = all_docs \<and>
      sorted_wrt (\<lambda>a b. fst a \<ge> fst b) (sort_reverse final_scores) \<and>
      mset (sort_reverse final_scores) = mset final_scores \<and>
      (\<forall>s. filter (\<lambda>x. fst x = s) (sort_reverse final_scores) =
           filter (\<lambda>x. fst x = s) final_scores) \<and>
      snd (hybrid_search provider bm25 query coll k) =
        Inr (map snd (slice_to k (sort_reverse final_scores))) \<and>
      (0 \<le> k \<longrightarrow>
         slice_to k (sort_reverse final_scores) = take (nat k) (sort_reverse final_scores)) \<and>
      (int (length all_docs) \<le> k \<longrightarrow>
         snd (hybrid_search provider bm25 query coll k) =
           Inr (map snd (sort_reverse final_scores)) \<and>
         length (map snd (sort_reverse final_scores)) = length all_docs \<and>
         mset (map snd (sort_reverse final_scores)) = mset all_docs \<and>
         (distinct all_docs \<longrightarrow> distinct (map snd (sort_reverse final_scores))))"
proof -
  from hybrid_search_stages [where provider = provider and ?bm25.0 = bm25 and query = query
      and coll = coll and k = k, OF assms]
  obtain sparse_norm dense_norm final_scores where st:
    "normalize_sparse (bm25 (map simple_tokenize all_docs) (simple_tokenize query)) = Inr sparse_norm"
    "vector_score_map (result_ids vector_results) (result_distances vector_results) = Inr dense_norm"
    "score_loop query all_docs sparse_norm dense_norm 0 all_ids = Inr final_scores"
    "hybrid_search provider bm25 query coll k =
      ([SearchStart], Inr (map snd (slice_to k (sort_reverse final_scores))))"
    "length final_scores = length all_docs"
    "\<forall>i<length all_docs.
       final_scores ! i =
         (weighted_sum (sparse_norm ! i) (map_get dense_norm (all_ids ! i) 0)
            + (if str_contains w (all_docs ! i) then 0.1 else 0), all_docs ! i)"
    by blast
  let ?ranked = "sort_reverse final_scores"
  have corpus: "map snd final_scores = all_docs"
    using st(5) st(6) by (rule map_snd_scored)
  have ret: "snd (hybrid_search provider bm25 query coll k) = Inr (map snd (slice_to k ?ranked))"
    using st(4) by simp
  have len: "length ?ranked = length all_docs"
    using st(5) by (simp add: sort_reverse_def)
  have perm: "mset (map snd ?ranked) = mset all_docs"
  proof -
    have "mset (map snd ?ranked) = image_mset snd (mset ?ranked)" by simp
    also have "\<dots> = image_mset snd (mset final_scores)" by (simp only: mset_sort_reverse)
    also have "\<dots> = mset (map snd final_scores)" by simp
    finally show ?thesis by (simp only: corpus)
  qed
  have pre: "0 \<le> k \<longrightarrow> slice_to k ?ranked = take (nat k) ?ranked"
    by (simp add: slice_to_def)
  have all: "int (length all_docs) \<le> k \<longrightarrow>
         snd (hybrid_search provider bm25 query coll k) = Inr (map snd ?ranked) \<and>
         length (map snd ?ranked) = length all_docs \<and>
         mset (map snd ?ranked) = mset all_docs \<and>
         (distinct all_docs \<longrightarrow> distinct (map snd ?ranked))"
  proof
    assume k: "int (length all_docs) \<le> k"
    then have "slice_to k ?ranked = ?ranked"
      using len by (simp add: slice_to_def)
    with ret have "snd (hybrid_search provider bm25 query coll k) = Inr (map snd ?ranked)"
      by simp
    moreover have "distinct all_docs \<longrightarrow> distinct (map snd ?ranked)"
      using perm mset_eq_imp_distinct_iff by blast
    ultimately show "snd (hybrid_search provider bm25 query coll k) = Inr (map snd ?ranked) \<and>
         length (map snd ?ranked) = length all_docs \<and>
         mset (map snd ?ranked) = mset all_docs \<and>
         (distinct all_docs \<longrightarrow> distinct (map snd ?ranked))"
      using len perm by simp
  qed
  from st(1-3) corpus sort_reverse_descending [of final_scores] mset_sort_reverse [of final_scores]
    sort_reverse_stable [of _ final_scores] ret pre all
  show ?thesis by blast
qed

theorem search_sorts_stably_and_truncates_witness:
  "int (length example_docs) \<le> 3 \<and>
   snd (hybrid_search example_provider overlap_scorer example_query example_collection 3) =
     Inr [''statistics intro oh professor'', ''stat lab oh'', ''english speaking kim professor''] \<and>
   (\<exists>final_scores.
      map snd final_scores = example_docs \<and>
      sorted_wrt (\<lambda>a b. fst a \<ge> fst b) (sort_reverse final_scores) \<and>
      snd (hybrid_search example_provider overlap_scorer example_query example_collection 3) =
        Inr (map snd (sort_reverse final_scores)) \<and>
      mset (map snd (sort_reverse final_scores)) = mset example_docs) \<and>
   sort_reverse [(1, ''a''), (2, ''b''), (1, ''c'')] = [(2, ''b''), (1, ''a''), (1, ''c'')]"
proof -
  have k: "int (length example_docs) \<le> 3"
    by (simp add: example_docs_def)
  from search_sorts_stably_and_truncates [where provider = example_provider
      and ?bm25.0 = overlap_scorer and query = example_query and coll = example_collection
      and k = 3,
      OF example_documents example_docs_nonempty example_ids example_lengths
        example_scorer_length example_embedding example_embedding_nonempty
        example_query_result example_distances example_split] k
  have "\<exists>final_scores.
      map snd final_scores = example_docs \<and>
      sorted_wrt (\<lambda>a b. fst a \<ge> fst b) (sort_reverse final_scores) \<and>
      snd (hybrid_search example_provider overlap_scorer example_query example_collection 3) =
        Inr (map snd (sort_reverse final_scores)) \<and>
      mset (map snd (sort_reverse final_scores)) = mset example_docs"
    by blast
  moreover have
    "snd (hybrid_search example_provider overlap_scorer example_query example_collection 3) =
     Inr [''statistics intro oh professor'', ''stat lab oh'', ''english speaking kim professor'']"
    by (simp add: example_run slice_to_def)
  moreover have
    "sort_reverse [(1, ''a''), (2, ''b''), (1, ''c'')] = [(2, ''b''), (1, ''a''), (1, ''c'')]"
    by (simp add: sort_reverse_def)
  ultimately show ?thesis using k by blast
qed

subsection \<open>The boost\<close>

text \<open>
  Claim C3. Let \<open>w\<close> be the first whitespace-delimited token of the raw query. In a run that
  reaches the scoring loop, a document \<open>i\<close> whose raw text contains \<open>w\<close> as a substring enters
  the sort with its weighted sum plus 0.1: the bonus is added to the sum of the normalized
  scores, before \<open>sort_reverse\<close>. Its score is strictly above its weighted sum, and strictly
  above the score of every document with the same two input scores whose text does not
  contain \<open>w\<close>. Nothing caps the result: when the weighted sum is above 0.9 the score is
  above 1.
\<close>

theorem boost_adds_bonus:
  assumes docs: "documents (coll_get coll) = all_docs" "all_docs \<noteq> []"
    and idl: "ids (coll_get coll) = all_ids" "length all_ids = length all_docs"
    and bm: "length (bm25 (map simple_tokenize all_docs) (simple_tokenize query)) = length all_docs"
    and emb: "provider query = Inr e" "e \<noteq> []"
    and res: "coll_query coll e (length all_docs) = vector_results"
      "\<forall>d\<in>set (result_distances vector_results). 0 \<le> d"
    and q: "str_split query = w # ws"
    and i: "i < length all_docs" "str_contains w (all_docs ! i)"
  shows "\<exists>sparse_norm dense_norm final_scores.
      normalize_sparse (bm25 (map simple_tokenize all_docs) (simple_tokenize query)) = Inr sparse_norm \<and>
      vector_score_map (result_ids vector_results) (result_distances vector_results) = Inr dense_norm \<and>
      score_loop query all_docs sparse_norm dense_norm 0 all_ids = Inr final_scores \<and>
      snd (hybrid_search provider bm25 query coll k) =
        Inr (map snd (slice_to k (sort_reverse final_scores))) \<and>
      fst (final_scores ! i) =
        weighted_sum (sparse_norm ! i) (map_get dense_norm (all_ids ! i) 0) + 0.1 \<and>
      weighted_sum (sparse_norm ! i) (map_get dense_norm (all_ids ! i) 0) < fst (final_scores ! i) \<and>
      (\<forall>j<length all_docs.
         \<not> str_contains w (all_docs ! j) \<and> sparse_norm ! j = sparse_norm ! i \<and>
         map_get dense_norm (all_ids ! j) 0 = map_get dense_norm (all_ids ! i) 0 \<longrightarrow>
         fst (final_scores ! j) = weighted_sum (sparse_norm ! i) (map_get dense_norm (all_ids ! i) 0) \<and>
         fst (final_scores ! j) < fst (final_scores ! i)) \<and>
      (0.9 < weighted_sum (sparse_norm ! i) (map_get dense_norm (all_ids ! i) 0) \<longrightarrow>
         1 < fst (final_scores ! i))"
proof -
  from hybrid_search_stages [where provider = provider and ?bm25.0 = bm25 and query = query
      and coll = coll and k = k, OF docs idl bm emb res q]
  obtain sparse_norm dense_norm final_scores where st:
    "normalize_sparse (bm25 (map simple_tokenize all_docs) (simple_tokenize query)) = Inr sparse_norm"
    "vector_score_map (result_ids vector_results) (result_distances vector_results) = Inr dense_norm"
    "score_loop query all_docs sparse_norm dense_norm 0 all_ids = Inr final_scores"
    "hybrid_search provider bm25 query coll k =
      ([SearchStart], Inr (map snd (slice_to k (sort_reverse final_scores))))"
    "length final_scores = length all_docs"
    "\<forall>i<length all_docs.
       final_scores ! i =
         (weighted_sum (sparse_norm ! i) (map_get dense_norm (all_ids ! i) 0)
            + (if str_contains w (all_docs ! i) then 0.1 else 0), all_docs ! i)"
    by blast
  let ?ws = "weighted_sum (sparse_norm ! i) (map_get dense_norm (all_ids ! i) 0)"
  have boosted: "fst (final_scores ! i) = ?ws + 0.1"
    using st(6) i by simp
  have others: "\<forall>j<length all_docs.
         \<not> str_contains w (all_docs ! j) \<and> sparse_norm ! j = sparse_norm ! i \<and>
         map_get dense_norm (all_ids ! j) 0 = map_get dense_norm (all_ids ! i) 0 \<longrightarrow>
         fst (final_scores ! j) = ?ws \<and> fst (final_scores ! j) < fst (final_scores ! i)"
    using st(6) boosted by simp
  have ret: "snd (hybrid_search provider bm25 query coll k) =
      Inr (map snd (slice_to k (sort_reverse final_scores)))"
    using st(4) by simp
  have "?ws < fst (final_scores ! i)" "0.9 < ?ws \<longrightarrow> 1 < fst (final_scores ! i)"
    using boosted by simp_all
  with st(1-3) ret boosted others show ?thesis by blast
qed

theorem boost_adds_bonus_witness:
  "str_contains ''oh'' (example_docs ! 0) \<and>
   (\<exists>sparse_norm dense_norm final_scores.
      normalize_sparse
        (overlap_scorer (map simple_tokenize example_docs) (simple_tokenize example_query)) =
        Inr sparse_norm \<and>
      vector_score_map (result_ids example_results) (result_distances example_results) =
        Inr dense_norm \<and>
      score_loop example_query example_docs sparse_norm dense_norm 0 example_doc_ids =
        Inr final_scores \<and>
      fst (final_scores ! 0) =
        weighted_sum (sparse_norm ! 0) (map_get dense_norm (example_doc_ids ! 0) 0) + 0.1 \<and>
      weighted_sum (sparse_norm ! 0) (map_get dense_norm (example_doc_ids ! 0) 0)
        < fst (final_scores ! 0)) \<and>
   total_score ''oh statistics'' ''stat lab oh'' 1 1 = Inr 1.1 \<and>
   total_score ''oh statistics'' ''english'' 1 1 = Inr 1"
proof -
  have i: "0 < length example_docs" "str_contains ''oh'' (example_docs ! 0)"
    by (simp_all add: example_docs_def)
  from boost_adds_bonus [where provider = example_provider
      and ?bm25.0 = overlap_scorer and query = example_query and coll = example_collection
      and k = 2 and i = 0,
      OF example_documents example_docs_nonempty example_ids example_lengths
        example_scorer_length example_embedding example_embedding_nonempty
        example_query_result example_distances example_split i]
  have "\<exists>sparse_norm dense_norm final_scores.
      normalize_sparse
        (overlap_scorer (map simple_tokenize example_docs) (simple_tokenize example_query)) =
        Inr sparse_norm \<and>
      vector_score_map (result_ids example_results) (result_distances example_results) =
        Inr dense_norm \<and>
      score_loop example_query example_docs sparse_norm dense_norm 0 example_doc_ids =
        Inr final_scores \<and>
      fst (final_scores ! 0) =
        weighted_sum (sparse_norm ! 0) (map_get dense_norm (example_doc_ids ! 0) 0) + 0.1 \<and>
      weighted_sum (sparse_norm ! 0) (map_get dense_norm (example_doc_ids ! 0) 0)
        < fst (final_scores ! 0)"
    by blast
  moreover have "total_score ''oh statistics'' ''stat lab oh'' 1 1 = Inr 1.1"
    "total_score ''oh statistics'' ''english'' 1 1 = Inr 1"
    by (simp_all add: total_score_def boost_applies_def str_split_def isspace_def
        weighted_sum_def alpha_def)
  ultimately show ?thesis using i(2) by blast
qed

subsection \<open>Sparse normalization\<close>

text \<open>
  Claim C6, as stated: every entry is divided by the maximum unless the maximum is zero.
  The guard of the code is \<open>np.max(bm25_scores) > 0\<close>: with the raw scores \<open>-2\<close> and \<open>-1\<close>
  the maximum is \<open>-1\<close>, not zero, and the vector is returned as it is, not divided.
\<close>

theorem normalize_sparse_negative_max_counterexample:
  "seq_max [-2, -1] = Inr (-1) \<and> (-1 :: real) \<noteq> 0 \<and>
   normalize_sparse [-2, -1] = Inr [-2, -1] \<and>
   normalize_sparse [-2, -1] \<noteq> Inr (map (\<lambda>x. x / (-1)) [-2, -1])"
  by (simp add: normalize_sparse_def)

text \<open>
  Claim C6, amended. On a non-empty raw vector the normalization never raises. It
  divides every entry by the maximum when the maximum is strictly positive, and returns
  the vector unchanged when the maximum is zero or negative. In particular, when every
  raw score is zero the normalized scores are all zero, and no division by zero occurs.
\<close>

theorem normalize_sparse_guard:
  assumes "bm25_scores \<noteq> []"
  shows "seq_max bm25_scores = Inr (Max (set bm25_scores)) \<and>
    (0 < Max (set bm25_scores) \<longrightarrow>
       normalize_sparse bm25_scores =
         Inr (map (\<lambda>x. x / Max (set bm25_scores)) bm25_scores)) \<and>
    (Max (set bm25_scores) \<le> 0 \<longrightarrow> normalize_sparse bm25_scores = Inr bm25_scores) \<and>
    ((\<forall>x\<in>set bm25_scores. x = 0) \<longrightarrow>
       normalize_sparse bm25_scores = Inr (replicate (length bm25_scores) 0)) \<and>
    normalize_sparse bm25_scores \<noteq> Inl ZeroDivisionError"
proof -
  have mx: "seq_max bm25_scores = Inr (Max (set bm25_scores))"
    using assms by (rule seq_max_Max)
  have zeros: "normalize_sparse bm25_scores = Inr (replicate (length bm25_scores) 0)"
    if z: "\<forall>x\<in>set bm25_scores. x = 0"
  proof -
    have "Max (set bm25_scores) \<in> set bm25_scores"
      using assms by (intro Max_in) simp_all
    with z have "Max (set bm25_scores) = 0" by blast
    moreover from z have "bm25_scores = replicate (length bm25_scores) 0"
      by (simp add: replicate_length_same)
    ultimately show ?thesis
      using mx by (simp add: normalize_sparse_def)
  qed
  from mx zeros show ?thesis
    by (auto simp: normalize_sparse_def)
qed

theorem normalize_sparse_guard_witness:
  "[0, 0 :: real] \<noteq> [] \<and> set [0, 0 :: real] = {0} \<and>
   normalize_sparse [0, 0] = Inr [0, 0] \<and>
   normalize_sparse [2, 0, 1] = Inr [1, 0, 1 / 2] \<and>
   normalize_sparse [0, 0] \<noteq> Inl ZeroDivisionError"
proof -
  have ne: "[0, 0 :: real] \<noteq> []" "[2, 0, 1 :: real] \<noteq> []" by simp_all
  have z: "\<forall>x\<in>set [0, 0 :: real]. x = 0" by simp
  from normalize_sparse_guard [OF ne(1)] z
  have "normalize_sparse [0, 0] = Inr [0, 0]" "normalize_sparse [0, 0] \<noteq> Inl ZeroDivisionError"
    by simp_all
  moreover from normalize_sparse_guard [OF ne(2)]
  have "normalize_sparse [2, 0, 1] = Inr [1, 0, 1 / 2]" by simp
  ultimately show ?thesis by simp
qed

subsection \<open>The empty corpus\<close>

text \<open>
  Claim C7. When the collection holds no document, \<open>hybrid_search\<close> prints its banner and
  the empty-database line and returns the empty list, for every provider, scorer, query
  and \<open>k\<close>; nothing is raised. Its caller \<open>run_rag\<close> then answers with the ordinary
  no-documents reply, not with an exception.
\<close>

theorem empty_corpus_returns_empty:
  assumes "documents (coll_get coll) = []"
  shows "hybrid_search provider bm25 query coll k = ([SearchStart, DbEmpty], Inr []) \<and>
    run_rag True provider bm25 generate coll query = ([SearchStart, DbEmpty], Inr DocsNotFound)"
  using assms by (simp add: hybrid_search_def run_rag_def)

theorem empty_corpus_returns_empty_witness:
  "documents (coll_get empty_collection) = [] \<and>
   hybrid_search example_provider overlap_scorer example_query empty_collection 7 =
     ([SearchStart, DbEmpty], Inr []) \<and>
   hybrid_search failing_provider overlap_scorer [] empty_collection (- 1) =
     ([SearchStart, DbEmpty], Inr []) \<and>
   run_rag True example_provider overlap_scorer echo_model empty_collection example_query =
     ([SearchStart, DbEmpty], Inr DocsNotFound)"
proof -
  have e: "documents (coll_get empty_collection) = []"
    by (simp add: empty_collection_def)
  from empty_corpus_returns_empty [OF e] e show ?thesis by simp
qed

subsection \<open>Monotonicity\<close>

text \<open>
  Claim C8. The weighted sum does not decrease when the sparse input grows with the dense
  input fixed, nor when the dense input grows with the sparse input fixed. The same holds
  for the score after the boost step of a query with a first token, since the boost term
  depends on the query and the document text only.
\<close>

theorem fused_score_monotone:
  assumes "str_split query = w # ws"
  shows "(k1 \<le> k2 \<longrightarrow>
       weighted_sum k1 v \<le> weighted_sum k2 v \<and>
       (\<exists>s1 s2. total_score query doc k1 v = Inr s1 \<and> total_score query doc k2 v = Inr s2 \<and>
          s1 \<le> s2)) \<and>
    (v1 \<le> v2 \<longrightarrow>
       weighted_sum k v1 \<le> weighted_sum k v2 \<and>
       (\<exists>s1 s2. total_score query doc k v1 = Inr s1 \<and> total_score query doc k v2 = Inr s2 \<and>
          s1 \<le> s2))"
proof -
  have a: "0 \<le> alpha" "0 \<le> 1 - alpha" by (simp_all add: alpha_def)
  have sparse: "weighted_sum k1 v \<le> weighted_sum k2 v" if "k1 \<le> k2"
    using that a(1) by (simp add: weighted_sum_def mult_right_mono)
  have dense: "weighted_sum k v1 \<le> weighted_sum k v2" if "v1 \<le> v2"
    using that a(2) by (simp add: weighted_sum_def mult_right_mono)
  from assms sparse dense show ?thesis
    by (simp add: total_score_def boost_applies_def)
qed

theorem fused_score_monotone_witness:
  "str_split example_query = ''oh'' # [''statistics''] \<and> (0 :: real) \<le> 1 \<and>
   weighted_sum 0 (1 / 2) \<le> weighted_sum 1 (1 / 2) \<and>
   weighted_sum (1 / 2) 0 \<le> weighted_sum (1 / 2) 1 \<and>
   (\<exists>s1 s2. total_score example_query ''stat lab oh'' 0 (1 / 2) = Inr s1 \<and>
      total_score example_query ''stat lab oh'' 1 (1 / 2) = Inr s2 \<and> s1 \<le> s2)"
proof -
  have le: "(0 :: real) \<le> 1" by simp
  from fused_score_monotone [OF example_split, of 0 1 "1 / 2" "''stat lab oh''" 0 1 "1 / 2"] le
  show ?thesis using example_split by simp
qed

subsection \<open>Dense scores\<close>

lemma vector_score_map_lookup:
  assumes "vector_score_map vector_ids distances = Inr dense_norm"
  shows "dense_norm key =
    (case map_of (rev (zip vector_ids distances)) key of
       None \<Rightarrow> None
     | Some d \<Rightarrow> Some (1 - d / (max_distance distances + 0.0001)))"
  using vector_scores_lookup [OF assms [unfolded vector_score_map_def], of key] by simp

lemma map_of_rev_zip_nth:
  assumes "distinct vector_ids" "length vector_ids = length distances" "i < length distances"
  shows "map_of (rev (zip vector_ids distances)) (vector_ids ! i) = Some (distances ! i)"
proof -
  have "(vector_ids ! i, distances ! i) \<in> set (rev (zip vector_ids distances))"
    using assms(2,3) by (auto simp: set_zip)
  moreover have "distinct (map fst (rev (zip vector_ids distances)))"
    using assms(1,2) by (simp add: rev_map [symmetric])
  ultimately show ?thesis by (rule map_of_is_SomeI [rotated])
qed

lemma dense_score_range:
  assumes "0 \<le> d" "d \<le> m"
  shows "0 \<le> 1 - d / (m + 0.0001) \<and> 1 - d / (m + 0.0001) \<le> (1 :: real)"
proof -
  from assms have pos: "0 < m + 0.0001" by simp
  from assms pos have "d / (m + 0.0001) \<le> 1" by (simp add: divide_le_eq)
  moreover from assms pos have "0 \<le> d / (m + 0.0001)" by simp
  ultimately show ?thesis by simp
qed

text \<open>
  Claim C4, as stated: the closest document scores near 1 and the farthest near 0. With a
  single document at distance 1, the closest document scores \<open>0.0001 / 1.0001\<close>, below
  0.001; with two documents at distance 0, the farthest document scores exactly 1.
\<close>

theorem dense_score_near_counterexample:
  "(\<exists>dense_norm. vector_score_map [''d1''] [1] = Inr dense_norm \<and>
      map_get dense_norm ''d1'' 0 = 0.0001 / 1.0001 \<and> map_get dense_norm ''d1'' 0 < 0.001) \<and>
   (\<exists>dense_norm. vector_score_map [''d1'', ''d2''] [0, 0] = Inr dense_norm \<and>
      map_get dense_norm ''d1'' 0 = 1 \<and> map_get dense_norm ''d2'' 0 = 1)"
  by (simp add: vector_score_map_def map_get_def)

text \<open>
  Claim C4, amended. For similarity results with distinct ids, one distance per id and
  non-negative distances, building the dictionary does not raise, and every returned
  document has the dense score \<open>1 - distance / (max_distance + 0.0001)\<close>, where
  \<open>max_distance\<close> is the largest returned distance. Every dense score read by the fusion
  (0 for an id that was not returned) lies in the unit interval. A document at distance 0
  scores exactly 1, and a document at the largest distance scores
  \<open>0.0001 / (max_distance + 0.0001)\<close>.
\<close>

theorem dense_score_formula:
  assumes ids: "distinct vector_ids" "length vector_ids = length distances"
    and nonneg: "\<forall>d\<in>set distances. 0 \<le> d"
  shows "\<exists>dense_norm.
    vector_score_map vector_ids distances = Inr dense_norm \<and>
    (distances \<noteq> [] \<longrightarrow> max_distance distances = Max (set distances)) \<and>
    (\<forall>i<length distances.
       dense_norm (vector_ids ! i) =
         Some (1 - distances ! i / (max_distance distances + 0.0001))) \<and>
    (\<forall>doc_id. 0 \<le> map_get dense_norm doc_id 0 \<and> map_get dense_norm doc_id 0 \<le> 1) \<and>
    (\<forall>i<length distances. distances ! i = 0 \<longrightarrow> dense_norm (vector_ids ! i) = Some 1) \<and>
    (\<forall>i<length distances. distances ! i = max_distance distances \<longrightarrow>
       dense_norm (vector_ids ! i) = Some (0.0001 / (max_distance distances + 0.0001)))"
proof -
  obtain dense_norm where dn: "vector_score_map vector_ids distances = Inr dense_norm"
    using vector_score_map_total [OF nonneg] by blast
  let ?m = "max_distance distances"
  have m0: "0 \<le> ?m" using nonneg by (rule max_distance_nonneg)
  have formula: "dense_norm (vector_ids ! i) = Some (1 - distances ! i / (?m + 0.0001))"
    if "i < length distances" for i
    using vector_score_map_lookup [OF dn, of "vector_ids ! i"]
      map_of_rev_zip_nth [OF ids that] by simp
  have range: "0 \<le> map_get dense_norm doc_id 0 \<and> map_get dense_norm doc_id 0 \<le> 1" for doc_id
  proof (cases "map_of (rev (zip vector_ids distances)) doc_id")
    case None
    then show ?thesis
      using vector_score_map_lookup [OF dn, of doc_id] by (simp add: map_get_def)
  next
    case (Some d)
    then have "(doc_id, d) \<in> set (zip vector_ids distances)"
      using map_of_SomeD by fastforce
    then have mem: "d \<in> set distances" by (rule set_zip_rightD)
    then have "distances \<noteq> []" by auto
    then have "?m = Max (set distances)" by (rule max_distance_Max)
    with mem have "d \<le> ?m" by simp
    moreover from mem nonneg have "0 \<le> d" by blast
    ultimately have "0 \<le> 1 - d / (?m + 0.0001) \<and> 1 - d / (?m + 0.0001) \<le> 1"
      by (intro dense_score_range)
    then show ?thesis
      using Some vector_score_map_lookup [OF dn, of doc_id] by (simp add: map_get_def)
  qed
  have zero: "dense_norm (vector_ids ! i) = Some 1"
    if "i < length distances" "distances ! i = 0" for i
    using formula [OF that(1)] that(2) by simp
  have farthest: "dense_norm (vector_ids ! i) = Some (0.0001 / (?m + 0.0001))"
    if "i < length distances" "distances ! i = ?m" for i
  proof -
    from m0 have "?m + 0.0001 \<noteq> 0" by simp
    then have "1 - ?m / (?m + 0.0001) = 0.0001 / (?m + 0.0001)"
      by (simp add: field_simps)
    with formula [OF that(1)] that(2) show ?thesis by simp
  qed
  from dn formula range zero farthest max_distance_Max [of distances]
  show ?thesis by blast
qed

theorem dense_score_formula_witness:
  "distinct [''d1'', ''d2'', ''d3''] \<and>
   (\<exists>dense_norm.
      vector_score_map [''d1'', ''d2'', ''d3''] [0, 1, 3] = Inr dense_norm \<and>
      dense_norm ''d1'' = Some 1 \<and>
      dense_norm ''d2'' = Some (1 - 1 / (3 + 0.0001)) \<and>
      dense_norm ''d3'' = Some (0.0001 / (3 + 0.0001)) \<and>
      0 \<le> map_get dense_norm ''d4'' 0 \<and> map_get dense_norm ''d4'' 0 \<le> 1)"
proof -
  have h: "distinct [''d1'', ''d2'', ''d3'']"
    "length [''d1'', ''d2'', ''d3''] = length [0, 1, 3 :: real]"
    "\<forall>d\<in>set [0, 1, 3 :: real]. 0 \<le> d"
    by simp_all
  have m: "max_distance [0, 1, 3] = 3"
    by simp
  from dense_score_formula [OF h] obtain dense_norm where d:
    "vector_score_map [''d1'', ''d2'', ''d3''] [0, 1, 3] = Inr dense_norm"
    "\<forall>i<length [0, 1, 3 :: real].
       dense_norm ([''d1'', ''d2'', ''d3''] ! i) =
         Some (1 - [0, 1, 3] ! i / (max_distance [0, 1, 3] + 0.0001))"
    "\<forall>doc_id. 0 \<le> map_get dense_norm doc_id 0 \<and> map_get dense_norm doc_id 0 \<le> 1"
    "\<forall>i<length [0, 1, 3 :: real]. [0, 1, 3] ! i = max_distance [0, 1, 3] \<longrightarrow>
       dense_norm ([''d1'', ''d2'', ''d3''] ! i) = Some (0.0001 / (max_distance [0, 1, 3] + 0.0001))"
    by blast
  from d(2) [rule_format, of 0] have d1: "dense_norm ''d1'' = Some 1" by simp
  from d(2) [rule_format, of 1] have d2: "dense_norm ''d2'' = Some (1 - 1 / (3 + 0.0001))"
    by (simp add: m)
  from d(4) [rule_format, of 2] have d3: "dense_norm ''d3'' = Some (0.0001 / (3 + 0.0001))"
    by (simp add: m)
  from d(1) d1 d2 d3 d(3) h(1) show ?thesis by blast
qed

subsection \<open>A missing query embedding\<close>

text \<open>
  Claim C5, as stated: a missing embedding is reported to the caller as a signal distinct
  from "no relevant documents found". On the example corpus with a provider that raises,
  \<open>hybrid_search\<close> returns the empty list, the value it also returns for an empty corpus,
  and \<open>run_rag\<close> answers in both cases with its no-documents reply.
\<close>

theorem embedding_failure_signal_counterexample:
  "failing_provider example_query = Inl ''unavailable'' \<and>
   documents (coll_get example_collection) \<noteq> [] \<and>
   snd (hybrid_search failing_provider overlap_scorer example_query example_collection 7) = Inr [] \<and>
   snd (hybrid_search example_provider overlap_scorer example_query empty_collection 7) = Inr [] \<and>
   snd (run_rag True failing_provider overlap_scorer echo_model example_collection example_query) =
     Inr DocsNotFound \<and>
   snd (run_rag True example_provider overlap_scorer echo_model empty_collection example_query) =
     Inr DocsNotFound"
  by (simp add: run_rag_def hybrid_search_def example_documents example_raw_scores
      normalize_sparse_def get_query_embedding_def failing_provider_def empty_collection_def
      example_docs_nonempty)

text \<open>
  Claim C5, amended. For every query on a non-empty corpus (with a scorer that returns at
  least one raw score), if the embedding provider raises or returns an empty embedding,
  \<open>hybrid_search\<close> returns the empty list and raises nothing. The returned value carries
  no cause: \<open>run_rag\<close> turns it into the no-documents reply. The cause is only printed, by
  \<open>get_query_embedding\<close>, when the provider raised; an empty embedding prints nothing
  beyond the banner.
\<close>

theorem embedding_failure_returns_empty:
  assumes "documents (coll_get coll) \<noteq> []"
    and "bm25 (map simple_tokenize (documents (coll_get coll))) (simple_tokenize query) \<noteq> []"
    and "provider query = Inl msg \<or> provider query = Inr []"
  shows "snd (hybrid_search provider bm25 query coll k) = Inr [] \<and>
    snd (run_rag True provider bm25 generate coll query) = Inr DocsNotFound \<and>
    fst (hybrid_search provider bm25 query coll k) =
      (case provider query of Inl e \<Rightarrow> [SearchStart, EmbeddingError e] | Inr v \<Rightarrow> [SearchStart])"
proof -
  obtain sparse_norm where sn:
    "normalize_sparse (bm25 (map simple_tokenize (documents (coll_get coll)))
       (simple_tokenize query)) = Inr sparse_norm"
    using normalize_sparse_total [OF assms(2)] by blast
  have "hybrid_search provider bm25 query coll k' =
      ((case provider query of Inl e \<Rightarrow> [SearchStart, EmbeddingError e] | Inr v \<Rightarrow> [SearchStart]),
       Inr [])" for k'
    using assms(1,3) sn by (auto simp: hybrid_search_def get_query_embedding_def)
  then show ?thesis by (simp add: run_rag_def)
qed

theorem embedding_failure_returns_empty_witness:
  "documents (coll_get example_collection) \<noteq> [] \<and>
   failing_provider example_query = Inl ''unavailable'' \<and>
   hybrid_search failing_provider overlap_scorer example_query example_collection 7 =
     ([SearchStart, EmbeddingError ''unavailable''], Inr []) \<and>
   snd (run_rag True failing_provider overlap_scorer echo_model example_collection example_query) =
     Inr DocsNotFound"
proof -
  have h: "documents (coll_get example_collection) \<noteq> []"
    "overlap_scorer (map simple_tokenize (documents (coll_get example_collection)))
       (simple_tokenize example_query) \<noteq> []"
    "failing_provider example_query = Inl ''unavailable'' \<or> failing_provider example_query = Inr []"
    by (simp_all add: example_documents example_docs_nonempty example_raw_scores
        failing_provider_def)
  have p: "failing_provider example_query = Inl ''unavailable''"
    by (simp add: failing_provider_def)
  from embedding_failure_returns_empty [where provider = failing_provider
      and ?bm25.0 = overlap_scorer and query = example_query and coll = example_collection
      and msg = "''unavailable''" and k = 7 and generate = echo_model, OF h] p h(1)
  show ?thesis by (simp add: prod_eq_iff)
qed

subsection \<open>A query without a token\<close>

lemma split_from_empty_iff:
  "split_from w s = [] \<longleftrightarrow> w = [] \<and> (\<forall>c\<in>set s. isspace c)"
  by (induction s arbitrary: w) auto

lemma str_split_empty_iff: "str_split s = [] \<longleftrightarrow> (\<forall>c\<in>set s. isspace c)"
  by (simp add: str_split_def split_from_empty_iff)

text \<open>
  Claim C9, as stated: for every non-empty corpus a query of whitespace only makes
  \<open>hybrid_search\<close> raise \<open>IndexError\<close>. On the example corpus with the provider that raises,
  the query of two spaces has no token, yet the search returns the empty list at the check
  of the embedding and raises nothing: the boost check is not reached.
\<close>

theorem blank_query_missing_embedding_counterexample:
  "documents (coll_get example_collection) \<noteq> [] \<and>
   str_split ''  '' = [] \<and>
   failing_provider ''  '' = Inl ''unavailable'' \<and>
   hybrid_search failing_provider overlap_scorer ''  '' example_collection 7 =
     ([SearchStart, EmbeddingError ''unavailable''], Inr []) \<and>
   hybrid_search failing_provider overlap_scorer ''  '' example_collection 7 \<noteq>
     ([SearchStart, EmbeddingError ''unavailable''], Inl IndexError)"
  by (simp add: example_documents example_docs_nonempty example_blank_split
      example_failing_blank_run failing_provider_def)

text \<open>
  Claim C9, amended. For every non-empty corpus and every query that is empty or consists
  of whitespace only, the query has no token, and when the query embedding is available (a
  non-empty embedding, with one id and one raw score per document and non-negative
  distances) \<open>hybrid_search\<close> raises \<open>IndexError\<close> at the boost check of the first document,
  whatever \<open>k\<close> is: no ranked result is returned.
\<close>

theorem blank_query_raises_index_error:
  assumes docs: "documents (coll_get coll) = all_docs" "all_docs \<noteq> []"
    and idl: "ids (coll_get coll) = all_ids" "length all_ids = length all_docs"
    and bm: "length (bm25 (map simple_tokenize all_docs) (simple_tokenize query)) = length all_docs"
    and emb: "provider query = Inr e" "e \<noteq> []"
    and res: "coll_query coll e (length all_docs) = vector_results"
      "\<forall>d\<in>set (result_distances vector_results). 0 \<le> d"
    and blank: "\<forall>c\<in>set query. isspace c"
  shows "str_split query = [] \<and>
    hybrid_search provider bm25 query coll k = ([SearchStart], Inl IndexError)"
proof -
  from blank have q: "str_split query = []" by (simp add: str_split_empty_iff)
  let ?raw = "bm25 (map simple_tokenize all_docs) (simple_tokenize query)"
  from bm docs(2) have "?raw \<noteq> []" by auto
  then obtain sparse_norm where sn: "normalize_sparse ?raw = Inr sparse_norm"
    using normalize_sparse_total by blast
  then have "length sparse_norm = length all_docs"
    using normalize_sparse_length bm by fastforce
  with docs(2) have len: "0 < length sparse_norm" by simp
  obtain dense where dn:
    "vector_score_map (result_ids vector_results) (result_distances vector_results) = Inr dense"
    using vector_score_map_total [OF res(2)] by blast
  from idl(2) docs(2) obtain doc_id rest where ids: "all_ids = doc_id # rest"
    by (cases all_ids) auto
  have "score_loop query all_docs sparse_norm dense 0 all_ids = Inl IndexError"
    using q len by (simp add: ids)
  then have "hybrid_search provider bm25 query coll k = ([SearchStart], Inl IndexError)"
    using docs idl(1) sn emb res(1) dn
    by (simp add: hybrid_search_def get_query_embedding_def)
  with q show ?thesis by simp
qed

theorem blank_query_raises_index_error_witness:
  "set ''  '' = {CHR '' ''} \<and> isspace CHR '' '' \<and>
   hybrid_search example_provider overlap_scorer ''  '' example_collection 7 =
     ([SearchStart], Inl IndexError) \<and>
   hybrid_search example_provider overlap_scorer [] example_collection 7 =
     ([SearchStart], Inl IndexError)"
proof -
  have bm: "length (overlap_scorer (map simple_tokenize example_docs) (simple_tokenize q)) =
      length example_docs" for q
    by (simp add: overlap_scorer_def)
  have emb: "example_provider q = Inr [1, 0]" for q
    by (simp add: example_provider_def)
  have sp: "isspace CHR '' ''" by (simp add: isspace_def)
  then have blank: "\<forall>c\<in>set ''  ''. isspace c" "\<forall>c\<in>set []. isspace c" by simp_all
  from blank_query_raises_index_error [where provider = example_provider
      and ?bm25.0 = overlap_scorer and coll = example_collection and k = 7,
      OF example_documents example_docs_nonempty example_ids example_lengths
        bm emb example_embedding_nonempty example_query_result example_distances blank(1)]
    blank_query_raises_index_error [where provider = example_provider
      and ?bm25.0 = overlap_scorer and coll = example_collection and k = 7,
      OF example_documents example_docs_nonempty example_ids example_lengths
        bm emb example_embedding_nonempty example_query_result example_distances blank(2)]
    sp
  show ?thesis by simp
qed

subsection \<open>Letter case in the boost and in the sparse score\<close>

lemma lower_char_idem: "lower_char (lower_char c) = lower_char c"
  by (simp add: lower_char_def)

lemma str_lower_idem: "str_lower (str_lower s) = str_lower s"
  by (simp add: str_lower_def lower_char_idem)

lemma simple_tokenize_lower: "simple_tokenize (str_lower s) = simple_tokenize s"
  by (simp add: simple_tokenize_def str_lower_idem)

text \<open>
  Claim C10. The tokenizer that feeds the sparse scorer lowercases its input, so a query
  and its lowercased form get the same raw sparse scores from every scorer on every
  corpus. The boost check reads the raw query and the raw document text. Hence there are
  two queries that differ in letter case only, and a document, such that both queries get
  the same sparse scores, the boost applies for one query and not for the other, and the
  scores of the document differ by exactly the bonus.
\<close>

theorem boost_is_case_sensitive:
  "(\<forall>(bm25 :: bm25_scorer) corpus query.
      bm25 (map simple_tokenize corpus) (simple_tokenize (str_lower query)) =
      bm25 (map simple_tokenize corpus) (simple_tokenize query)) \<and>
   (\<forall>doc. simple_tokenize (str_lower doc) = simple_tokenize doc) \<and>
   (\<exists>query query' doc.
      query \<noteq> query' \<and> str_lower query = str_lower query' \<and>
      simple_tokenize query = simple_tokenize query' \<and>
      (\<forall>(bm25 :: bm25_scorer) corpus.
         bm25 (map simple_tokenize corpus) (simple_tokenize query) =
         bm25 (map simple_tokenize corpus) (simple_tokenize query')) \<and>
      hd (simple_tokenize query) \<in> set (simple_tokenize doc) \<and>
      boost_applies query' doc = Inr True \<and>
      boost_applies query doc = Inr False \<and>
      (\<forall>k_score v_score.
         total_score query' doc k_score v_score = Inr (weighted_sum k_score v_score + 0.1) \<and>
         total_score query doc k_score v_score = Inr (weighted_sum k_score v_score)))"
proof -
  have tok: "simple_tokenize ''Oh statistics'' = [''oh'', ''statistics'']"
    "simple_tokenize ''oh statistics'' = [''oh'', ''statistics'']"
    "simple_tokenize ''stat lab oh'' = [''stat'', ''lab'', ''oh'']"
    by (simp_all add: simple_tokenize_def str_lower_def lower_char_def str_split_def isspace_def)
  have low: "str_lower ''Oh statistics'' = str_lower ''oh statistics''"
    by (simp add: str_lower_def lower_char_def)
  have boost: "boost_applies ''oh statistics'' ''stat lab oh'' = Inr True"
    "boost_applies ''Oh statistics'' ''stat lab oh'' = Inr False"
    by (simp_all add: boost_applies_def str_split_def isspace_def)
  have "''Oh statistics'' \<noteq> ''oh statistics'' \<and>
      str_lower ''Oh statistics'' = str_lower ''oh statistics'' \<and>
      simple_tokenize ''Oh statistics'' = simple_tokenize ''oh statistics'' \<and>
      (\<forall>(bm25 :: bm25_scorer) corpus.
         bm25 (map simple_tokenize corpus) (simple_tokenize ''Oh statistics'') =
         bm25 (map simple_tokenize corpus) (simple_tokenize ''oh statistics'')) \<and>
      hd (simple_tokenize ''Oh statistics'') \<in> set (simple_tokenize ''stat lab oh'') \<and>
      boost_applies ''oh statistics'' ''stat lab oh'' = Inr True \<and>
      boost_applies ''Oh statistics'' ''stat lab oh'' = Inr False \<and>
      (\<forall>k_score v_score.
         total_score ''oh statistics'' ''stat lab oh'' k_score v_score =
           Inr (weighted_sum k_score v_score + 0.1) \<and>
         total_score ''Oh statistics'' ''stat lab oh'' k_score v_score =
           Inr (weighted_sum k_score v_score))"
    using low boost by (simp add: tok total_score_def)
  then have "\<exists>query query' doc.
      query \<noteq> query' \<and> str_lower query = str_lower query' \<and>
      simple_tokenize query = simple_tokenize query' \<and>
      (\<forall>(bm25 :: bm25_scorer) corpus.
         bm25 (map simple_tokenize corpus) (simple_tokenize query) =
         bm25 (map simple_tokenize corpus) (simple_tokenize query')) \<and>
      hd (simple_tokenize query) \<in> set (simple_tokenize doc) \<and>
      boost_applies query' doc = Inr True \<and>
      boost_applies query doc = Inr False \<and>
      (\<forall>k_score v_score.
         total_score query' doc k_score v_score = Inr (weighted_sum k_score v_score + 0.1) \<and>
         total_score query doc k_score v_score = Inr (weighted_sum k_score v_score))"
    by (intro exI)
  then show ?thesis by (simp add: simple_tokenize_lower)
qed

end
